theory Spec2Isabelle
  imports Complex_Main "HOL-Library.Multiset" "HOL-Library.Sublist"
begin

section \<open>Data model\<close>

text \<open>
  JavaScript objects are shared and mutable, so tiles live in a store indexed by their
  object identity, and links between tiles (\<open>parent\<close>, \<open>children\<close>) are identities.
  An object reference of the program always designates an object, hence the store is a
  total function. Layers are compared by identity too (\<open>n.layer == this\<close>).
\<close>

type_synonym ref = nat
type_synonym layer_ref = nat

text \<open>The base class \<open>Layer\<close>: the fields that the two classes under study read.\<close>

record data_source =
  zoom_max :: int

record layer =
  layer_id :: string
  layer_type :: string
  frozen :: bool
  ready :: bool
  layer_visible :: bool
  layer_source :: data_source

text \<open>
  \<open>class GeometryLayer extends Layer\<close>. The field \<open>self\<close> is the identity of the
  object; \<open>attachedLayers\<close> is the array filled by \<open>attach\<close>.
\<close>

record geometry_layer = layer +
  self :: layer_ref
  attachedLayers :: "layer list"

section \<open>GeometryLayer.detach\<close>

text \<open>
  \<^verbatim>\<open>
  detach(layer) {
      const count = this.attachedLayers.length;
      this.attachedLayers = this.attachedLayers.filter(attached => attached.id != layer.id);
      return this.attachedLayers.length < count;
  }
  \<close>
  The method mutates \<open>this\<close> and returns a boolean: the model returns both.
\<close>

definition detach :: "'a geometry_layer_scheme \<Rightarrow> 'b layer_scheme \<Rightarrow> bool \<times> 'a geometry_layer_scheme" where
  "detach this l =
     (let count = length (attachedLayers this);
          this' = this\<lparr>attachedLayers := filter (\<lambda>attached. layer_id attached \<noteq> layer_id l) (attachedLayers this)\<rparr>
      in (length (attachedLayers this') < count, this'))"

section \<open>Tiles, contexts, commands\<close>

text \<open>
  \<open>TileMesh\<close> is not part of the sources under study; its fields are the ones the
  tiled layer reads and writes. \<open>material\<close> may be null (\<open>preUpdate\<close> tests it), so
  every other access to it can raise a \<open>TypeError\<close>.
\<close>

datatype failure = CancelledCommandException | OtherFailure string

datatype error = TypeError | Error failure

text \<open>
  Modelled from the spec: \<open>LayerUpdateState\<close> is missing; the data model gives the
  per-layer status record as one of not-requested, pending, ready, error, and
  \<open>inError()\<close> tells the last one.
\<close>

datatype load_status = StatusNotRequested | StatusPending | StatusReady | StatusError

definition inError :: "load_status \<Rightarrow> bool" where
  "inError st = (st = StatusError)"

record extent =
  west :: real
  east :: real
  south :: real
  north :: real

record material =
  mat_visible :: bool
  elevationLayerLoaded :: bool
  colorLayersLoaded :: "string list"
  fogDistance :: real

definition isElevationLayerLoaded :: "material \<Rightarrow> bool" where
  "isElevationLayerLoaded m = elevationLayerLoaded m"

definition isColorLayerLoaded :: "material \<Rightarrow> 'a layer_scheme \<Rightarrow> bool" where
  "isColorLayerLoaded m c = (layer_id c \<in> set (colorLayersLoaded m))"

record tile_mesh =
  layer :: "layer_ref option"
  parent :: "ref option"
  children :: "ref list"
  material :: "material option"
  extent :: extent
  level :: nat
  pendingSubdivision :: bool
  visible :: bool
  displayed :: bool
  layerUpdateState :: "string \<rightharpoonup> load_status"

type_synonym store = "ref \<Rightarrow> tile_mesh"

record camera =
  camera_position :: "real \<times> real \<times> real"

text \<open>
  \<open>View.getLayers(filter)\<close> is outside the sources: it is a field of the view. The
  filter receives a layer and the identifier of the geometry layer it is attached to
  (none for a layer attached to nothing).
\<close>

record view =
  getLayers :: "(layer \<Rightarrow> string option \<Rightarrow> bool) \<Rightarrow> layer list"
  view_fogDistance :: "real option"

datatype zoom_bound = Level int | Infinity

record update_context =
  view :: view
  camera :: camera
  colorLayers :: "layer list"
  elevationLayers :: "layer list"
  maxElevationLevel :: zoom_bound

record command =
  cmd_view :: view
  requester :: ref
  cmd_layer :: layer_ref
  priority :: nat
  extentsSource :: "extent list"
  redraw :: bool

text \<open>
  The program state: the tiles, the commands that \<open>context.scheduler.execute\<close> has
  accepted and not yet settled, and the calls of \<open>view.notifyChange\<close> made so far.
\<close>

record state =
  heap :: store
  commands :: "command list"
  notifications :: "(ref \<times> bool) list"

text \<open>
  \<open>class TiledGeometryLayer extends GeometryLayer\<close>. \<open>culling\<close> and \<open>subdivision\<close>
  are function-valued fields of the layer; the spec's interface makes both pure. The
  layer argument of \<open>subdivision(context, this, node)\<close> is the object itself.
\<close>

record tiled_geometry_layer = geometry_layer +
  level0Nodes :: "ref list"
  culling :: "store \<Rightarrow> ref \<Rightarrow> camera \<Rightarrow> bool"
  subdivision :: "update_context \<Rightarrow> store \<Rightarrow> ref \<Rightarrow> bool"

text \<open>
  The collaborators that the tiled layer calls and that are outside the sources under
  study are parameters: \<open>ObjectRemovalHelper.removeChildren\<close> and
  \<open>removeChildrenAndCleanup\<close> (arbitrary state transformers with a result),
  \<open>Extent.subdivision\<close>, \<open>TileMesh.findCommonAncestor\<close>, and the test
  \<open>l.source.extentsInsideLimit(node.getCoordsForSource(l.source))\<close>, which the spec
  describes as "does this node's extent lie within the source's coverage limits": a
  predicate of the layer and of the extent of the node.
\<close>

record collaborators =
  removeChildren :: "layer_ref \<Rightarrow> ref \<Rightarrow> state \<Rightarrow> (error + ref list option) \<times> state"
  removeChildrenAndCleanup :: "layer_ref \<Rightarrow> ref \<Rightarrow> state \<Rightarrow> (error + ref list option) \<times> state"
  extentSubdivision :: "extent \<Rightarrow> extent list"
  extentsInsideLimit :: "layer \<Rightarrow> extent \<Rightarrow> bool"
  findCommonAncestor :: "store \<Rightarrow> ref \<Rightarrow> ref \<Rightarrow> ref option"

definition modify :: "ref \<Rightarrow> (tile_mesh \<Rightarrow> tile_mesh) \<Rightarrow> state \<Rightarrow> state" where
  "modify n f s = s\<lparr>heap := (heap s)(n := f (heap s n))\<rparr>"

text \<open>
  Modelled from the spec: \<open>TileMesh.setDisplayed\<close> is missing; the data model has a
  boolean \<open>displayed\<close> on the node, independent of \<open>visible\<close>, which it sets.
\<close>

definition setDisplayed :: "ref \<Rightarrow> bool \<Rightarrow> state \<Rightarrow> state" where
  "setDisplayed n sh s = modify n (\<lambda>t. t\<lparr>displayed := sh\<rparr>) s"

text \<open>
  \<open>TileMesh.setFog\<close> is missing as well; the call site says it updates the uniforms of
  the material, so it records the distance there. It is reached only after
  \<open>node.material.visible\<close> has been read, that is with a material.
\<close>

definition setFog :: "ref \<Rightarrow> real \<Rightarrow> state \<Rightarrow> state" where
  "setFog n d s = modify n (\<lambda>t. t\<lparr>material := map_option (\<lambda>m. m\<lparr>fogDistance := d\<rparr>) (material t)\<rparr>) s"

text \<open>
  \<open>Object3D.add\<close> of three.js: an object is never added to itself; otherwise it leaves
  its former parent, gets the new one, and is pushed at the end of the children.
\<close>

definition add :: "ref \<Rightarrow> ref \<Rightarrow> store \<Rightarrow> store" where
  "add n c h =
     (if c = n then h
      else let h1 = (case parent (h c) of
                       None \<Rightarrow> h
                     | Some p \<Rightarrow> h(p := (h p)\<lparr>children := remove1 c (children (h p))\<rparr>));
               h2 = h1(c := (h1 c)\<lparr>parent := Some n\<rparr>)
           in h2(n := (h2 n)\<lparr>children := children (h2 n) @ [c]\<rparr>))"

section \<open>TiledGeometryLayer.hasEnoughTexturesToSubdivide\<close>

definition layerInError :: "tile_mesh \<Rightarrow> 'a layer_scheme \<Rightarrow> bool" where
  "layerInError node l =
     (case layerUpdateState node (layer_id l) of None \<Rightarrow> False | Some st \<Rightarrow> inError st)"

text \<open>
  The two loops of the function. \<open>Inr True\<close> is "the loop ran to its end",
  \<open>Inr False\<close> is \<open>return false\<close>. The conjuncts of each condition are evaluated
  from left to right, so the material is read only when the ones before it hold.
\<close>

fun elevationLoop :: "collaborators \<Rightarrow> tile_mesh \<Rightarrow> layer list \<Rightarrow> error + bool" where
  "elevationLoop X node [] = Inr True"
| "elevationLoop X node (e # es) =
     (if \<not> frozen e \<and> ready e \<and> extentsInsideLimit X e (extent node) then
        (case material node of
           None \<Rightarrow> Inl TypeError
         | Some m \<Rightarrow>
             if \<not> isElevationLayerLoaded m then
               (if layerInError node e then elevationLoop X node es else Inr False)
             else elevationLoop X node es)
      else elevationLoop X node es)"

fun colorLoop :: "collaborators \<Rightarrow> tile_mesh \<Rightarrow> layer list \<Rightarrow> error + bool" where
  "colorLoop X node [] = Inr True"
| "colorLoop X node (c # cs) =
     (if frozen c \<or> \<not> layer_visible c \<or> \<not> ready c then colorLoop X node cs
      else if layerInError node c then colorLoop X node cs
      else if extentsInsideLimit X c (extent node) then
        (case material node of
           None \<Rightarrow> Inl TypeError
         | Some m \<Rightarrow> if \<not> isColorLayerLoaded m c then Inr False else colorLoop X node cs)
      else colorLoop X node cs)"

definition hasEnoughTexturesToSubdivide :: "collaborators \<Rightarrow> update_context \<Rightarrow> tile_mesh \<Rightarrow> error + bool" where
  "hasEnoughTexturesToSubdivide X ctx node =
     (case elevationLoop X node (elevationLayers ctx) of
        Inr True \<Rightarrow> colorLoop X node (colorLayers ctx)
      | r \<Rightarrow> r)"

section \<open>TiledGeometryLayer.subdivideNode\<close>

definition ownsChild :: "'a tiled_geometry_layer_scheme \<Rightarrow> store \<Rightarrow> ref \<Rightarrow> bool" where
  "ownsChild this h n = list_ex (\<lambda>c. layer (h c) = Some (self this)) (children (h n))"

text \<open>
  The synchronous part: the guard, the flag, and the command handed to the scheduler.
  The promise returned by \<open>execute\<close> is settled later, by one of the two callbacks.
\<close>

definition subdivideNode :: "collaborators \<Rightarrow> 'a tiled_geometry_layer_scheme \<Rightarrow> update_context \<Rightarrow> ref \<Rightarrow> state \<Rightarrow> state" where
  "subdivideNode X this ctx n s =
     (if \<not> pendingSubdivision (heap s n) \<and> \<not> ownsChild this (heap s) n then
        let extents = extentSubdivision X (extent (heap s n));
            s1 = modify n (\<lambda>t. t\<lparr>pendingSubdivision := True\<rparr>) s;
            command = \<lparr>cmd_view = view ctx, requester = n, cmd_layer = self this,
                       priority = 10000, extentsSource = extents, redraw = False\<rparr>
        in s1\<lparr>commands := commands s1 @ [command]\<rparr>
      else s)"

text \<open>The callback of a fulfilled promise, with the children the scheduler yields.\<close>

definition onFulfilled :: "ref \<Rightarrow> ref list \<Rightarrow> state \<Rightarrow> state" where
  "onFulfilled n cs s =
     (let s1 = s\<lparr>heap := fold (\<lambda>child h. add n child h) cs (heap s)\<rparr>;
          s2 = modify n (\<lambda>t. t\<lparr>pendingSubdivision := False\<rparr>) s1
      in s2\<lparr>notifications := notifications s2 @ [(n, False)]\<rparr>)"

text \<open>
  The callback of a rejected promise. What it throws is the second component:
  \<open>None\<close> when the callback returns normally.
\<close>

definition onRejected :: "ref \<Rightarrow> failure \<Rightarrow> state \<Rightarrow> state \<times> error option" where
  "onRejected n err s =
     (let s1 = modify n (\<lambda>t. t\<lparr>pendingSubdivision := False\<rparr>) s
      in if err \<noteq> CancelledCommandException then (s1, Some (Error err)) else (s1, None))"

text \<open>
  Modelled from the spec: the scheduler is missing. A Subdivision Command is owned by
  the scheduler for its lifetime and destroyed when it resolves or is cancelled: the
  scheduler picks any outstanding command, removes it, and runs one of the callbacks
  of the promise it returned for it.
\<close>

definition settle :: "nat \<Rightarrow> state \<Rightarrow> state" where
  "settle i s = s\<lparr>commands := take i (commands s) @ drop (Suc i) (commands s)\<rparr>"

definition outstanding :: "state \<Rightarrow> ref \<Rightarrow> nat" where
  "outstanding s n = length (filter (\<lambda>c. requester c = n) (commands s))"

inductive step :: "collaborators \<Rightarrow> 'a tiled_geometry_layer_scheme \<Rightarrow> state \<Rightarrow> state \<Rightarrow> bool"
  for X this where
  Request: "step X this s (subdivideNode X this ctx n s)"
| Fulfil: "i < length (commands s) \<Longrightarrow>
     step X this s (onFulfilled (requester (commands s ! i)) cs (settle i s))"
| Reject: "i < length (commands s) \<Longrightarrow>
     step X this s (fst (onRejected (requester (commands s ! i)) err (settle i s)))"

inductive reachable :: "collaborators \<Rightarrow> 'a tiled_geometry_layer_scheme \<Rightarrow> state \<Rightarrow> bool"
  for X this where
  Initial: "commands s = [] \<Longrightarrow> reachable X this s"
| Step: "reachable X this s \<Longrightarrow> step X this s s' \<Longrightarrow> reachable X this s'"

section \<open>TiledGeometryLayer.update\<close>

definition childrenOfLayer :: "'a tiled_geometry_layer_scheme \<Rightarrow> store \<Rightarrow> ref \<Rightarrow> ref list" where
  "childrenOfLayer this h n = filter (\<lambda>c. layer (h c) = Some (self this)) (children (h n))"

text \<open>
  The condition of the subdividing branch,
  \<^verbatim>\<open>node.pendingSubdivision || (hasEnoughTexturesToSubdivide(context, node) && this.subdivision(context, this, node))\<close>,
  evaluated from left to right.
\<close>

definition subdivisionTest :: "collaborators \<Rightarrow> 'a tiled_geometry_layer_scheme \<Rightarrow> update_context \<Rightarrow> ref \<Rightarrow> state \<Rightarrow> error + bool" where
  "subdivisionTest X this ctx n s =
     (if pendingSubdivision (heap s n) then Inr True
      else case hasEnoughTexturesToSubdivide X ctx (heap s n) of
             Inl e \<Rightarrow> Inl e
           | Inr enough \<Rightarrow> Inr (enough \<and> subdivision this ctx (heap s) n))"

text \<open>
  The result is what the method returns (\<open>None\<close> for \<open>undefined\<close>) or the exception
  that leaves it, together with the state at that moment.
\<close>

definition update :: "collaborators \<Rightarrow> 'a tiled_geometry_layer_scheme \<Rightarrow> update_context \<Rightarrow> ref \<Rightarrow> state \<Rightarrow> (error + ref list option) \<times> state" where
  "update X this ctx n s =
     (case parent (heap s n) of
        None \<Rightarrow> removeChildrenAndCleanup X (self this) n s
      | Some p \<Rightarrow>
          if pendingSubdivision (heap s p) then
            (Inr None, setDisplayed n False (modify n (\<lambda>t. t\<lparr>visible := False\<rparr>) s))
          else
            let s1 = modify n (\<lambda>t. t\<lparr>visible := \<not> culling this (heap s) n (camera ctx)\<rparr>) s in
            if visible (heap s1 n) then
              (case subdivisionTest X this ctx n s1 of
                 Inl e \<Rightarrow> (Inl e, s1)
               | Inr requestChildrenUpdate \<Rightarrow>
                   let s2 = (if requestChildrenUpdate then
                               (let s' = subdivideNode X this ctx n s1
                                in setDisplayed n (pendingSubdivision (heap s' n)) s')
                             else setDisplayed n True s1)
                   in (case material (heap s2 n) of
                         None \<Rightarrow> (Inl TypeError, s2)
                       | Some m \<Rightarrow>
                           if mat_visible m then
                             let s3 = (case view_fogDistance (view ctx) of
                                         None \<Rightarrow> s2
                                       | Some d \<Rightarrow> setFog n d s2)
                             in if \<not> requestChildrenUpdate then removeChildren X (self this) n s3
                                else (Inr (Some (childrenOfLayer this (heap s3) n)), s3)
                           else
                             (Inr (if requestChildrenUpdate
                                   then Some (childrenOfLayer this (heap s2) n) else None), s2)))
            else removeChildren X (self this) n (setDisplayed n False s1))"

section \<open>TiledGeometryLayer.preUpdate\<close>

text \<open>
  A source of an update is \<open>undefined\<close>, the camera (\<open>isCamera\<close> is true), a layer
  (neither \<open>isCamera\<close> nor \<open>layer\<close>), or a tile. The set of sources is a JavaScript
  \<open>Set\<close>, iterated in insertion order: a list.
\<close>

datatype update_source = Undefined | CameraSource | LayerSource layer_ref | TileSource ref

text \<open>
  The loop over the sources and the \<open>if\<close> that follows it, with the running
  \<open>commonAncestor\<close> (\<open>None\<close> for \<open>undefined\<close>). Reading \<open>isCamera\<close> of
  \<open>undefined\<close> raises; \<open>preUpdate\<close> never enters the loop with such a source.
\<close>

fun ancestorLoop :: "collaborators \<Rightarrow> 'a tiled_geometry_layer_scheme \<Rightarrow> store \<Rightarrow> update_source list \<Rightarrow> ref option \<Rightarrow> error + ref list" where
  "ancestorLoop X this h [] commonAncestor =
     (case commonAncestor of Some c \<Rightarrow> Inr [c] | None \<Rightarrow> Inr (level0Nodes this))"
| "ancestorLoop X this h (Undefined # rest) commonAncestor = Inl TypeError"
| "ancestorLoop X this h (CameraSource # rest) commonAncestor = Inr (level0Nodes this)"
| "ancestorLoop X this h (LayerSource l # rest) commonAncestor =
     ancestorLoop X this h rest commonAncestor"
| "ancestorLoop X this h (TileSource r # rest) commonAncestor =
     (if layer (h r) = Some (self this) then
        (case (case commonAncestor of
                 None \<Rightarrow> Some r
               | Some c \<Rightarrow> findCommonAncestor X h r c) of
           None \<Rightarrow> Inr (level0Nodes this)
         | Some c' \<Rightarrow>
             if material (h c') = None then ancestorLoop X this h rest None
             else ancestorLoop X this h rest (Some c'))
      else ancestorLoop X this h rest commonAncestor)"

text \<open>
  The method updates the context and returns the nodes to update. The bookkeeping under
  \<open>__DEBUG__\<close> (a build-time constant; \<open>_latestUpdateStartingLevel\<close> is only written)
  is that of a production build: absent.
\<close>

definition preUpdate :: "collaborators \<Rightarrow> 'a tiled_geometry_layer_scheme \<Rightarrow> update_context \<Rightarrow> update_source list \<Rightarrow> store \<Rightarrow> update_context \<times> (error + ref list)" where
  "preUpdate X this ctx sources h =
     (if Undefined \<in> set sources \<or> length sources = 0 then (ctx, Inr (level0Nodes this))
      else
        let ctx1 = ctx\<lparr>colorLayers := getLayers (view ctx)
                      (\<lambda>l a. a = Some (layer_id this) \<and> layer_type l = ''color'')\<rparr>;
            ctx2 = ctx1\<lparr>elevationLayers := getLayers (view ctx1)
                      (\<lambda>l a. a = Some (layer_id this) \<and> layer_type l = ''elevation'')\<rparr>;
            m = fold (\<lambda>e m. max (zoom_max (layer_source e)) m) (elevationLayers ctx2) (- 1);
            ctx3 = ctx2\<lparr>maxElevationLevel := (if m = - 1 then Infinity else Level m)\<rparr>
        in (ctx3, ancestorLoop X this h sources None))"

text \<open>
  The fold of section 4.5 of the specification, in its words: the first source is the
  default ancestor, the running ancestor is combined pairwise with each new source, and
  one combination that yields none aborts the whole fold with none.
\<close>

fun resolveAncestor :: "(ref \<Rightarrow> ref \<Rightarrow> ref option) \<Rightarrow> ref list \<Rightarrow> ref option" where
  "resolveAncestor f [] = None"
| "resolveAncestor f (r # rs) =
     fold (\<lambda>src acc. case acc of None \<Rightarrow> None | Some c \<Rightarrow> f src c) rs (Some r)"

text \<open>
  The algebra of a common-ancestor resolver: commutative, associative (a combination
  that yields none absorbs) and idempotent.
\<close>

definition partialMeet :: "(ref \<Rightarrow> ref \<Rightarrow> ref option) \<Rightarrow> bool" where
  "partialMeet f \<longleftrightarrow>
     (\<forall>a b. f a b = f b a) \<and>
     (\<forall>a b c. Option.bind (f a b) (\<lambda>x. f x c) = Option.bind (f b c) (\<lambda>y. f a y)) \<and>
     (\<forall>a. f a a = Some a)"

section \<open>Auxiliary notions\<close>

text \<open>
  The invariant of the scheduler's transition system: a node is the requester of at most
  one outstanding command, and while it is, its flag is raised and it owns no child of
  the layer.
\<close>

definition oneCommand :: "'a tiled_geometry_layer_scheme \<Rightarrow> state \<Rightarrow> bool" where
  "oneCommand this s \<longleftrightarrow>
     (\<forall>n. outstanding s n \<le> 1 \<and>
          (outstanding s n = 1 \<longrightarrow> pendingSubdivision (heap s n) \<and> \<not> ownsChild this (heap s) n))"

text \<open>The context without the layers whose status for the node is in error.\<close>

definition withoutFailedLayers :: "tile_mesh \<Rightarrow> update_context \<Rightarrow> update_context" where
  "withoutFailedLayers node ctx =
     ctx\<lparr>elevationLayers := filter (\<lambda>l. \<not> layerInError node l) (elevationLayers ctx),
         colorLayers := filter (\<lambda>l. \<not> layerInError node l) (colorLayers ctx)\<rparr>"

text \<open>
  The loop of \<open>preUpdate\<close> as a fold, for the sets of sources on which it never
  resets its running ancestor: the state is "no ancestor yet", an ancestor, or "no
  common ancestor" (the early return).
\<close>

datatype ancestor_state = NotSet | Ancestor ref | NoCommonAncestor

definition combine :: "(ref \<Rightarrow> ref \<Rightarrow> ref option) \<Rightarrow> ref \<Rightarrow> ancestor_state \<Rightarrow> ancestor_state" where
  "combine f src st =
     (case st of
        NotSet \<Rightarrow> Ancestor src
      | Ancestor c \<Rightarrow> (case f src c of None \<Rightarrow> NoCommonAncestor | Some c' \<Rightarrow> Ancestor c')
      | NoCommonAncestor \<Rightarrow> NoCommonAncestor)"

definition nodesToUpdate :: "'a tiled_geometry_layer_scheme \<Rightarrow> ancestor_state \<Rightarrow> ref list" where
  "nodesToUpdate this st = (case st of Ancestor c \<Rightarrow> [c] | _ \<Rightarrow> level0Nodes this)"

section \<open>An example configuration\<close>

text \<open>
  A tiled layer \<open>globe\<close> with two root tiles \<open>0\<close> and \<open>50\<close> under the group
  \<open>100\<close>, every other tile a leaf below the root \<open>0\<close>, and a resolver for that
  forest: two different tiles meet at the root \<open>0\<close>, unless one of them is the other
  root.
\<close>

definition orthoLayer :: layer where
  "orthoLayer = \<lparr>layer_id = ''ortho'', layer_type = ''color'', frozen = False, ready = True,
     layer_visible = True, layer_source = \<lparr>zoom_max = 18\<rparr>\<rparr>"

definition demLayer :: layer where
  "demLayer = \<lparr>layer_id = ''dem'', layer_type = ''elevation'', frozen = False, ready = True,
     layer_visible = True, layer_source = \<lparr>zoom_max = 12\<rparr>\<rparr>"

definition demCopy :: layer where
  "demCopy = \<lparr>layer_id = ''dem'', layer_type = ''color'', frozen = True, ready = False,
     layer_visible = True, layer_source = \<lparr>zoom_max = 3\<rparr>\<rparr>"

definition globe :: tiled_geometry_layer where
  "globe = \<lparr>layer_id = ''globe'', layer_type = ''geometry'', frozen = False, ready = True,
     layer_visible = True, layer_source = \<lparr>zoom_max = 0\<rparr>, self = 1,
     attachedLayers = [demLayer, orthoLayer, demCopy], level0Nodes = [0, 50],
     culling = (\<lambda>h n c. False), subdivision = (\<lambda>ctx h n. True)\<rparr>"

definition quarter :: "extent \<Rightarrow> extent list" where
  "quarter e =
     (let x = (west e + east e) / 2; y = (south e + north e) / 2
      in [e\<lparr>east := x, south := y\<rparr>, e\<lparr>west := x, south := y\<rparr>,
          e\<lparr>east := x, north := y\<rparr>, e\<lparr>west := x, north := y\<rparr>])"

definition star :: collaborators where
  "star = \<lparr>removeChildren = (\<lambda>l n s. (Inr (Some []), s)),
     removeChildrenAndCleanup = (\<lambda>l n s. (Inr (Some []), s)),
     extentSubdivision = quarter,
     extentsInsideLimit = (\<lambda>l e. True),
     findCommonAncestor =
       (\<lambda>h a b. if a = b then Some a else if a = 50 \<or> b = 50 then None else Some 0)\<rparr>"

definition plainMaterial :: material where
  "plainMaterial = \<lparr>mat_visible = True, elevationLayerLoaded = False, colorLayersLoaded = [],
     fogDistance = 0\<rparr>"

definition leaf :: tile_mesh where
  "leaf = \<lparr>layer = Some 1, parent = Some 0, children = [], material = Some plainMaterial,
     extent = \<lparr>west = 0, east = 1, south = 0, north = 1\<rparr>, level = 1,
     pendingSubdivision = False, visible = False, displayed = False,
     layerUpdateState = Map.empty\<rparr>"

definition tree :: store where
  "tree = (\<lambda>r. leaf)
     (0 := leaf\<lparr>parent := Some 100, children := [1, 2, 3], level := 0\<rparr>,
      50 := leaf\<lparr>parent := Some 100, level := 0\<rparr>,
      100 := leaf\<lparr>layer := None, parent := None, children := [0, 50], material := None\<rparr>)"

definition view0 :: view where
  "view0 = \<lparr>getLayers = (\<lambda>f. filter (\<lambda>l. f l (Some ''globe'')) [demLayer, orthoLayer]),
     view_fogDistance = None\<rparr>"

definition ctx0 :: update_context where
  "ctx0 = \<lparr>view = view0, camera = \<lparr>camera_position = (0, 0, 10)\<rparr>, colorLayers = [orthoLayer],
     elevationLayers = [demLayer], maxElevationLevel = Level 12\<rparr>"

definition state0 :: state where
  "state0 = \<lparr>heap = tree, commands = [], notifications = []\<rparr>"

definition state1 :: state where
  "state1 = subdivideNode star globe ctx0 1 state0"

text \<open>A leaf whose two layers failed to load, and a state where the root is pending.\<close>

definition failedTile :: tile_mesh where
  "failedTile = leaf\<lparr>layerUpdateState := [''dem'' \<mapsto> StatusError, ''ortho'' \<mapsto> StatusError]\<rparr>"

definition state2 :: state where
  "state2 = state0\<lparr>heap := tree(0 := (tree 0)\<lparr>pendingSubdivision := True\<rparr>,
                                 1 := leaf\<lparr>visible := True, displayed := True\<rparr>)\<rparr>"


text \<open>
  The example tree with a root that has no material, and with a first leaf that has
  none.
\<close>

definition bareTree :: store where
  "bareTree = tree(0 := (tree 0)\<lparr>material := None\<rparr>)"

definition tornTree :: store where
  "tornTree = tree(1 := leaf\<lparr>material := None\<rparr>)"

section \<open>Properties of the scheduler's transition system\<close>

lemmas fixture_defs = orthoLayer_def demLayer_def demCopy_def globe_def quarter_def star_def
  plainMaterial_def leaf_def tree_def view0_def ctx0_def state0_def state1_def

lemma heap_modify: "heap (modify n f s) = (heap s)(n := f (heap s n))"
  and commands_modify: "commands (modify n f s) = commands s"
  and notifications_modify: "notifications (modify n f s) = notifications s"
  by (simp_all add: modify_def)

lemma add_layer: "layer (add n c h x) = layer (h x)"
  by (simp add: add_def Let_def split: option.splits)

lemma add_pending: "pendingSubdivision (add n c h x) = pendingSubdivision (h x)"
  by (simp add: add_def Let_def split: option.splits)

lemma add_children_subset: "x \<noteq> n \<Longrightarrow> set (children (add n c h x)) \<subseteq> set (children (h x))"
  using set_remove1_subset [of c "children (h x)"]
  by (auto simp: add_def Let_def split: option.splits)

lemma fold_add_layer: "layer (fold (\<lambda>child h. add n child h) cs h x) = layer (h x)"
  by (induction cs arbitrary: h) (simp_all add: add_layer)

lemma fold_add_pending:
  "pendingSubdivision (fold (\<lambda>child h. add n child h) cs h x) = pendingSubdivision (h x)"
  by (induction cs arbitrary: h) (simp_all add: add_pending)

lemma fold_add_children_subset:
  "x \<noteq> n \<Longrightarrow> set (children (fold (\<lambda>child h. add n child h) cs h x)) \<subseteq> set (children (h x))"
proof (induction cs arbitrary: h)
  case Nil
  show ?case by simp
next
  case (Cons c cs)
  have "set (children (fold (\<lambda>child h. add n child h) cs (add n c h) x)) \<subseteq> set (children (add n c h x))"
    using Cons by blast
  also have "\<dots> \<subseteq> set (children (h x))"
    using Cons.prems by (rule add_children_subset)
  finally show ?case by simp
qed

lemma ownsChild_mono:
  assumes "set (children (h' x)) \<subseteq> set (children (h x))" and "\<And>c. layer (h' c) = layer (h c)"
    and "ownsChild this h' x"
  shows "ownsChild this h x"
  using assms by (auto simp: ownsChild_def list_ex_iff)

lemma outstanding_settle:
  assumes "i < length (commands s)"
  shows "outstanding s n = outstanding (settle i s) n + (if requester (commands s ! i) = n then 1 else 0)"
proof -
  have "commands s = take i (commands s) @ commands s ! i # drop (Suc i) (commands s)"
    using assms by (simp add: id_take_nth_drop)
  then have "filter (\<lambda>c. requester c = n) (commands s)
      = filter (\<lambda>c. requester c = n) (take i (commands s) @ commands s ! i # drop (Suc i) (commands s))"
    by simp
  then show ?thesis
    by (simp add: outstanding_def settle_def)
qed

lemma oneCommand_request:
  assumes "oneCommand this s"
  shows "oneCommand this (subdivideNode X this ctx n s)"
proof (cases "\<not> pendingSubdivision (heap s n) \<and> \<not> ownsChild this (heap s) n")
  case False
  then have "subdivideNode X this ctx n s = s" by (auto simp: subdivideNode_def)
  with assms show ?thesis by simp
next
  case True
  let ?s' = "subdivideNode X this ctx n s"
  from True assms have zero: "outstanding s n = 0"
    unfolding oneCommand_def by (metis le_neq_implies_less less_one)
  have out: "outstanding ?s' m = outstanding s m + (if m = n then 1 else 0)" for m
    using True by (simp add: subdivideNode_def Let_def outstanding_def commands_modify)
  have pend: "pendingSubdivision (heap ?s' m) = (if m = n then True else pendingSubdivision (heap s m))" for m
    using True by (simp add: subdivideNode_def Let_def heap_modify)
  have own: "ownsChild this (heap ?s') m = ownsChild this (heap s) m" for m
    using True by (auto simp: subdivideNode_def Let_def heap_modify ownsChild_def list_ex_iff)
  show ?thesis
    unfolding oneCommand_def
  proof (intro allI)
    fix m
    show "outstanding ?s' m \<le> 1 \<and> (outstanding ?s' m = 1 \<longrightarrow> pendingSubdivision (heap ?s' m) \<and> \<not> ownsChild this (heap ?s') m)"
    proof (cases "m = n")
      case True
      with zero out pend own \<open>\<not> pendingSubdivision (heap s n) \<and> \<not> ownsChild this (heap s) n\<close>
      show ?thesis by simp
    next
      case False
      with assms out pend own show ?thesis by (simp add: oneCommand_def)
    qed
  qed
qed

lemma oneCommand_settled:
  assumes inv: "oneCommand this s" and i: "i < length (commands s)"
    and heap': "\<And>m. m \<noteq> requester (commands s ! i) \<Longrightarrow>
        pendingSubdivision (heap s' m) = pendingSubdivision (heap s m)
        \<and> set (children (heap s' m)) \<subseteq> set (children (heap s m))"
    and lay: "\<And>c. layer (heap s' c) = layer (heap s c)"
    and cmds: "commands s' = commands (settle i s)"
  shows "oneCommand this s'"
  unfolding oneCommand_def
proof (intro allI)
  fix m
  let ?r = "requester (commands s ! i)"
  have out: "outstanding s m = outstanding s' m + (if ?r = m then 1 else 0)"
    using outstanding_settle [OF i, of m] cmds by (simp add: outstanding_def)
  from inv have le: "outstanding s m \<le> 1"
    and one: "outstanding s m = 1 \<Longrightarrow> pendingSubdivision (heap s m) \<and> \<not> ownsChild this (heap s) m"
    by (simp_all add: oneCommand_def)
  show "outstanding s' m \<le> 1 \<and> (outstanding s' m = 1 \<longrightarrow> pendingSubdivision (heap s' m) \<and> \<not> ownsChild this (heap s') m)"
  proof (cases "?r = m")
    case True
    with out le show ?thesis by simp
  next
    case False
    with out have same: "outstanding s' m = outstanding s m" by simp
    from False heap' [of m] have p: "pendingSubdivision (heap s' m) = pendingSubdivision (heap s m)"
      and c: "set (children (heap s' m)) \<subseteq> set (children (heap s m))" by auto
    have "ownsChild this (heap s') m \<Longrightarrow> ownsChild this (heap s) m"
      using c lay by (rule ownsChild_mono)
    with same le one p show ?thesis by auto
  qed
qed

lemma oneCommand_step:
  assumes "oneCommand this s" and "step X this s s'"
  shows "oneCommand this s'"
  using assms(2)
proof cases
  case (Request ctx n)
  with assms(1) show ?thesis by (simp add: oneCommand_request)
next
  case (Fulfil i cs)
  show ?thesis
  proof (rule oneCommand_settled [OF assms(1) Fulfil(2)])
    fix m assume "m \<noteq> requester (commands s ! i)"
    then show "pendingSubdivision (heap s' m) = pendingSubdivision (heap s m)
        \<and> set (children (heap s' m)) \<subseteq> set (children (heap s m))"
      using fold_add_children_subset [of m "requester (commands s ! i)" cs "heap s"]
      by (simp add: Fulfil(1) onFulfilled_def Let_def heap_modify settle_def fold_add_pending)
  next
    fix c show "layer (heap s' c) = layer (heap s c)"
      by (simp add: Fulfil(1) onFulfilled_def Let_def heap_modify settle_def fold_add_layer)
  next
    show "commands s' = commands (settle i s)"
      by (simp add: Fulfil(1) onFulfilled_def Let_def commands_modify)
  qed
next
  case (Reject i err)
  show ?thesis
  proof (rule oneCommand_settled [OF assms(1) Reject(2)])
    fix m assume "m \<noteq> requester (commands s ! i)"
    then show "pendingSubdivision (heap s' m) = pendingSubdivision (heap s m)
        \<and> set (children (heap s' m)) \<subseteq> set (children (heap s m))"
      by (simp add: Reject(1) onRejected_def Let_def heap_modify settle_def)
  next
    fix c show "layer (heap s' c) = layer (heap s c)"
      by (simp add: Reject(1) onRejected_def Let_def heap_modify settle_def)
  next
    show "commands s' = commands (settle i s)"
      by (simp add: Reject(1) onRejected_def Let_def commands_modify)
  qed
qed

lemma reachable_oneCommand: "reachable X this s \<Longrightarrow> oneCommand this s"
proof (induction rule: reachable.induct)
  case (Initial s)
  then show ?case by (simp add: oneCommand_def outstanding_def)
next
  case (Step s s')
  then show ?case by (blast intro: oneCommand_step)
qed

section \<open>Properties of subdivideNode\<close>

text \<open>
  C1. \<open>subdivideNode\<close> changes nothing (no command, no flag, no other state) when
  the node is already pending or already owns a child of this layer. Consequently, in
  every state reached from one without commands by requests and settlements, each node
  has at most one outstanding command, and it has one only while its flag is raised.
\<close>

theorem subdivideNode_guard_single_command:
  "(pendingSubdivision (heap s n) \<or> ownsChild this (heap s) n \<longrightarrow> subdivideNode X this ctx n s = s)
   \<and> (reachable X this s \<longrightarrow>
        outstanding s n \<le> 1 \<and> (outstanding s n = 1 \<longrightarrow> pendingSubdivision (heap s n)))"
proof (intro conjI impI)
  assume "pendingSubdivision (heap s n) \<or> ownsChild this (heap s) n"
  then show "subdivideNode X this ctx n s = s"
    by (auto simp: subdivideNode_def)
next
  assume "reachable X this s"
  then have "oneCommand this s" by (rule reachable_oneCommand)
  then show "outstanding s n \<le> 1" and "outstanding s n = 1 \<Longrightarrow> pendingSubdivision (heap s n)"
    by (simp_all add: oneCommand_def)
qed

text \<open>The state after a first request for tile \<open>1\<close>: a second request is a no-op.\<close>

theorem subdivideNode_guard_single_command_witness:
  "pendingSubdivision (heap state1 1) \<and> reachable star globe state1
   \<and> subdivideNode star globe ctx0 1 state1 = state1 \<and> outstanding state1 1 = 1"
proof -
  have "reachable star globe state0"
    by (rule reachable.Initial) (simp add: state0_def)
  then have r: "reachable star globe state1"
    unfolding state1_def by (rule reachable.Step) (rule step.Request)
  have p: "pendingSubdivision (heap state1 1)"
    by (simp add: fixture_defs subdivideNode_def ownsChild_def modify_def)
  have o: "outstanding state1 1 = 1"
    by (simp add: fixture_defs subdivideNode_def ownsChild_def modify_def outstanding_def)
  from subdivideNode_guard_single_command [of state1 1 globe star ctx0] r p o
  show ?thesis by simp
qed

text \<open>
  C2. When the scheduler rejects a command issued by \<open>subdivideNode\<close>, the callback
  clears the flag of the requester and changes nothing else; it throws nothing for a
  cancellation and throws the error otherwise; the requester still owns no child of
  this layer.
\<close>

theorem rejection_clears_pendingSubdivision:
  assumes "reachable X this s" and "i < length (commands s)"
    and "requester (commands s ! i) = n"
    and "onRejected n err (settle i s) = (s', thrown)"
  shows "\<not> pendingSubdivision (heap s' n)
       \<and> (err = CancelledCommandException \<longrightarrow> thrown = None)
       \<and> (err \<noteq> CancelledCommandException \<longrightarrow> thrown = Some (Error err))
       \<and> \<not> ownsChild this (heap s') n
       \<and> heap s' = (heap s)(n := (heap s n)\<lparr>pendingSubdivision := False\<rparr>)"
proof -
  from assms(1) have inv: "oneCommand this s" by (rule reachable_oneCommand)
  from outstanding_settle [OF assms(2), of n] assms(3) have "1 \<le> outstanding s n" by simp
  with inv have "outstanding s n = 1"
    unfolding oneCommand_def by (metis le_antisym)
  with inv have leafOnly: "\<not> ownsChild this (heap s) n" by (simp add: oneCommand_def)
  from assms(4) have h: "heap s' = (heap s)(n := (heap s n)\<lparr>pendingSubdivision := False\<rparr>)"
    and t: "thrown = (if err \<noteq> CancelledCommandException then Some (Error err) else None)"
    by (auto simp: onRejected_def Let_def heap_modify settle_def split: if_splits)
  from leafOnly h have "\<not> ownsChild this (heap s') n"
    by (auto simp: ownsChild_def list_ex_iff)
  with h t show ?thesis by simp
qed

text \<open>The command of tile \<open>1\<close> rejected, once by cancellation and once by a failure.\<close>

theorem rejection_clears_pendingSubdivision_witness:
  "reachable star globe state1 \<and> requester (commands state1 ! 0) = 1
   \<and> snd (onRejected 1 CancelledCommandException (settle 0 state1)) = None
   \<and> snd (onRejected 1 (OtherFailure ''builder'') (settle 0 state1))
       = Some (Error (OtherFailure ''builder''))
   \<and> \<not> pendingSubdivision (heap (fst (onRejected 1 (OtherFailure ''builder'') (settle 0 state1))) 1)
   \<and> \<not> ownsChild globe (heap (fst (onRejected 1 (OtherFailure ''builder'') (settle 0 state1)))) 1"
proof -
  have "reachable star globe state0"
    by (rule reachable.Initial) (simp add: state0_def)
  then have r: "reachable star globe state1"
    unfolding state1_def by (rule reachable.Step) (rule step.Request)
  have c: "commands state1 = [\<lparr>cmd_view = view0, requester = 1, cmd_layer = 1, priority = 10000,
      extentsSource = quarter \<lparr>west = 0, east = 1, south = 0, north = 1\<rparr>, redraw = False\<rparr>]"
    by (simp add: state1_def state0_def subdivideNode_def ownsChild_def modify_def tree_def
        leaf_def globe_def star_def ctx0_def)
  have i: "0 < length (commands state1)" and q: "requester (commands state1 ! 0) = 1"
    by (simp_all add: c)
  note rej = rejection_clears_pendingSubdivision [OF r i q prod.collapse [symmetric]]
  from rej [of "OtherFailure ''builder''"] rej [of CancelledCommandException] r q
  show ?thesis by (meson failure.distinct)
qed

section \<open>Properties of hasEnoughTexturesToSubdivide\<close>

lemma elevationLoop_skips_failed:
  "material node \<noteq> None \<Longrightarrow>
   elevationLoop X node (filter (\<lambda>l. \<not> layerInError node l) es) = elevationLoop X node es"
  by (induction es) auto

lemma colorLoop_skips_failed:
  "colorLoop X node (filter (\<lambda>l. \<not> layerInError node l) cs) = colorLoop X node cs"
  by (induction cs) (auto split: option.splits)

lemma elevationLoop_False_material:
  "elevationLoop X node es = Inr False \<Longrightarrow> material node \<noteq> None"
  by (induction es) (auto split: if_splits option.splits)

lemma elevationLoop_visible:
  "elevationLoop X (t\<lparr>visible := v\<rparr>) es = elevationLoop X t es"
  by (induction es) (auto simp: layerInError_def split: option.splits)

lemma colorLoop_visible:
  "colorLoop X (t\<lparr>visible := v\<rparr>) cs = colorLoop X t cs"
  by (induction cs) (auto simp: layerInError_def split: option.splits)

lemma hasEnough_visible:
  "hasEnoughTexturesToSubdivide X ctx (t\<lparr>visible := v\<rparr>) = hasEnoughTexturesToSubdivide X ctx t"
  by (simp add: hasEnoughTexturesToSubdivide_def elevationLoop_visible colorLoop_visible
      cong: sum.case_cong bool.case_cong)

lemma colorLoop_False_material:
  "colorLoop X node cs = Inr False \<Longrightarrow> material node \<noteq> None"
  by (induction cs) (auto split: if_splits option.splits)

lemma hasEnough_False_material:
  assumes "hasEnoughTexturesToSubdivide X ctx node = Inr False"
  shows "material node \<noteq> None"
proof (cases "elevationLoop X node (elevationLayers ctx) = Inr False")
  case True
  then show ?thesis by (rule elevationLoop_False_material)
next
  case False
  with assms have "colorLoop X node (colorLayers ctx) = Inr False"
    by (auto simp: hasEnoughTexturesToSubdivide_def split: sum.splits bool.splits)
  then show ?thesis by (rule colorLoop_False_material)
qed

text \<open>
  C3. A layer whose status for the node is in error never makes
  \<open>hasEnoughTexturesToSubdivide\<close> false: on a node with a material the result is the
  one obtained without those layers; whenever the result is false it is false without
  them too; and when every layer of the context is in error the result is true, loaded
  textures or not.
\<close>

theorem failed_layers_never_block:
  "(material node \<noteq> None \<longrightarrow>
      hasEnoughTexturesToSubdivide X ctx node
        = hasEnoughTexturesToSubdivide X (withoutFailedLayers node ctx) node)
   \<and> (hasEnoughTexturesToSubdivide X ctx node = Inr False \<longrightarrow>
        hasEnoughTexturesToSubdivide X (withoutFailedLayers node ctx) node = Inr False)
   \<and> (material node \<noteq> None
        \<and> (\<forall>l \<in> set (elevationLayers ctx) \<union> set (colorLayers ctx). layerInError node l) \<longrightarrow>
        hasEnoughTexturesToSubdivide X ctx node = Inr True)"
proof -
  have eq: "hasEnoughTexturesToSubdivide X ctx node
      = hasEnoughTexturesToSubdivide X (withoutFailedLayers node ctx) node"
    if "material node \<noteq> None"
    using that
    by (simp add: hasEnoughTexturesToSubdivide_def withoutFailedLayers_def
        elevationLoop_skips_failed colorLoop_skips_failed split: sum.splits bool.splits)
  have mat: "material node \<noteq> None" if "hasEnoughTexturesToSubdivide X ctx node = Inr False"
    using that by (rule hasEnough_False_material)
  have all: "hasEnoughTexturesToSubdivide X ctx node = Inr True"
    if m: "material node \<noteq> None"
      and f: "\<forall>l \<in> set (elevationLayers ctx) \<union> set (colorLayers ctx). layerInError node l"
  proof -
    from f have "filter (\<lambda>l. \<not> layerInError node l) (elevationLayers ctx) = []"
      and "filter (\<lambda>l. \<not> layerInError node l) (colorLayers ctx) = []"
      by (auto simp: filter_empty_conv)
    then have "hasEnoughTexturesToSubdivide X (withoutFailedLayers node ctx) node = Inr True"
      by (simp add: hasEnoughTexturesToSubdivide_def withoutFailedLayers_def)
    with eq [OF m] show ?thesis by simp
  qed
  from eq mat all show ?thesis by metis
qed

text \<open>
  The elevation layer covers the tile and its texture is not loaded: it blocks the
  tile, and no longer does once its status is in error.
\<close>

theorem failed_layers_never_block_witness:
  "material failedTile \<noteq> None
   \<and> elevationLayers ctx0 = [demLayer] \<and> colorLayers ctx0 = [orthoLayer]
   \<and> layerInError failedTile demLayer \<and> layerInError failedTile orthoLayer
   \<and> extentsInsideLimit star demLayer (extent failedTile)
   \<and> \<not> isElevationLayerLoaded plainMaterial
   \<and> hasEnoughTexturesToSubdivide star ctx0 failedTile = Inr True
   \<and> hasEnoughTexturesToSubdivide star ctx0 leaf = Inr False"
proof -
  have m: "material failedTile \<noteq> None"
    by (simp add: failedTile_def leaf_def)
  have f: "\<forall>l \<in> set (elevationLayers ctx0) \<union> set (colorLayers ctx0). layerInError failedTile l"
    by (simp add: failedTile_def leaf_def ctx0_def layerInError_def inError_def demLayer_def
        orthoLayer_def)
  have b: "hasEnoughTexturesToSubdivide star ctx0 leaf = Inr False"
    by (simp add: hasEnoughTexturesToSubdivide_def leaf_def ctx0_def layerInError_def
        demLayer_def orthoLayer_def star_def plainMaterial_def isElevationLayerLoaded_def)
  have e: "extentsInsideLimit star demLayer (extent failedTile)"
    and l: "\<not> isElevationLayerLoaded plainMaterial"
    by (simp_all add: star_def plainMaterial_def isElevationLayerLoaded_def)
  have c: "elevationLayers ctx0 = [demLayer]" "colorLayers ctx0 = [orthoLayer]"
    by (simp_all add: ctx0_def)
  from f c have g: "layerInError failedTile demLayer" "layerInError failedTile orthoLayer"
    by simp_all
  from failed_layers_never_block [of failedTile star ctx0] m f
  have "hasEnoughTexturesToSubdivide star ctx0 failedTile = Inr True" by blast
  with m c g e l b show ?thesis by blast
qed

section \<open>Properties of update\<close>

text \<open>
  C9. Below a parent whose subdivision is pending, \<open>update\<close> returns \<open>undefined\<close>
  and changes the state in exactly two fields of the node: \<open>visible\<close> and
  \<open>displayed\<close>, both false. The result depends neither on the culling test, nor on
  the subdivision criterion, nor on the removal helper, and no command is added.
\<close>

theorem update_below_pending_parent:
  assumes "parent (heap s n) = Some p" and "pendingSubdivision (heap s p)"
  shows "update X this ctx n s
       = (Inr None, s\<lparr>heap := (heap s)(n := (heap s n)\<lparr>visible := False, displayed := False\<rparr>)\<rparr>)"
  using assms by (simp add: update_def setDisplayed_def modify_def)

theorem update_below_pending_parent_witness:
  "parent (heap state2 1) = Some 0 \<and> pendingSubdivision (heap state2 0)
   \<and> visible (heap state2 1) \<and> displayed (heap state2 1)
   \<and> fst (update star globe ctx0 1 state2) = Inr None
   \<and> \<not> visible (heap (snd (update star globe ctx0 1 state2)) 1)
   \<and> \<not> displayed (heap (snd (update star globe ctx0 1 state2)) 1)
   \<and> commands (snd (update star globe ctx0 1 state2)) = []"
proof -
  have a: "parent (heap state2 1) = Some 0" and b: "pendingSubdivision (heap state2 0)"
    by (simp_all add: state2_def state0_def tree_def leaf_def)
  from update_below_pending_parent [OF a b, of star globe ctx0] a b
  show ?thesis by (simp add: state2_def state0_def leaf_def)
qed

lemma childrenOfLayer_update:
  "layer t = layer (h n) \<Longrightarrow> children t = children (h n) \<Longrightarrow>
   childrenOfLayer this (h(n := t)) m = childrenOfLayer this h m"
  by (auto simp: childrenOfLayer_def intro: filter_cong)


text \<open>
  C4. For a node that is not culled, below a parent that is not pending: when the node is
  not pending and \<open>hasEnoughTexturesToSubdivide\<close> returns false, \<open>update\<close> takes the
  branch without \<open>subdivideNode\<close>: before the removal helper gets the state, no
  command has been added and no flag raised, and the outcome is the same whatever the
  subdivision criterion of the layer. When the node is pending, the state goes through
  \<open>subdivideNode\<close> whatever the textures, the node is displayed, and its children of
  this layer are returned.
\<close>

theorem update_gate_blocks_new_subdivision:
  assumes par: "parent (heap s n) = Some p" and np: "\<not> pendingSubdivision (heap s p)"
    and vis: "\<not> culling this (heap s) n (camera ctx)"
  shows "(\<not> pendingSubdivision (heap s n)
          \<and> hasEnoughTexturesToSubdivide X ctx (heap s n) = Inr False \<longrightarrow>
          (let s' = setDisplayed n True (modify n (\<lambda>t. t\<lparr>visible := True\<rparr>) s)
           in commands s' = commands s
              \<and> (\<forall>m. pendingSubdivision (heap s' m) = pendingSubdivision (heap s m))
              \<and> update X this ctx n s =
                  (case material (heap s n) of
                     None \<Rightarrow> (Inl TypeError, s')
                   | Some m \<Rightarrow>
                       if mat_visible m then
                         removeChildren X (self this) n
                           (case view_fogDistance (view ctx) of
                              None \<Rightarrow> s'
                            | Some d \<Rightarrow> setFog n d s')
                       else (Inr None, s'))
              \<and> (\<forall>criterion. update X (this\<lparr>subdivision := criterion\<rparr>) ctx n s
                    = update X this ctx n s)))
       \<and> (pendingSubdivision (heap s n) \<longrightarrow>
          (let s1 = subdivideNode X this ctx n (modify n (\<lambda>t. t\<lparr>visible := True\<rparr>) s);
               s2 = setDisplayed n (pendingSubdivision (heap s1 n)) s1
           in update X this ctx n s =
                (case material (heap s n) of
                   None \<Rightarrow> (Inl TypeError, s2)
                 | Some m \<Rightarrow>
                     if mat_visible m then
                       (Inr (Some (childrenOfLayer this (heap s) n)),
                        case view_fogDistance (view ctx) of None \<Rightarrow> s2 | Some d \<Rightarrow> setFog n d s2)
                     else (Inr (Some (childrenOfLayer this (heap s) n)), s2))
              \<and> displayed (heap (snd (update X this ctx n s)) n)))"
proof (intro conjI impI)
  assume a: "\<not> pendingSubdivision (heap s n)
      \<and> hasEnoughTexturesToSubdivide X ctx (heap s n) = Inr False"
  then have t: "subdivisionTest X this' ctx n (modify n (\<lambda>t. t\<lparr>visible := True\<rparr>) s) = Inr False"
    for this' :: "'a tiled_geometry_layer_scheme"
    by (simp add: subdivisionTest_def modify_def hasEnough_visible)
  have u: "update X this' ctx n s =
      (let s' = setDisplayed n True (modify n (\<lambda>t. t\<lparr>visible := True\<rparr>) s)
       in case material (heap s n) of
            None \<Rightarrow> (Inl TypeError, s')
          | Some m \<Rightarrow>
              if mat_visible m then
                removeChildren X (self this) n
                  (case view_fogDistance (view ctx) of None \<Rightarrow> s' | Some d \<Rightarrow> setFog n d s')
              else (Inr None, s'))"
    if "culling this' = culling this" and "self this' = self this"
    for this' :: "'a tiled_geometry_layer_scheme"
    using par np vis that t [of this']
    by (simp add: update_def Let_def heap_modify setDisplayed_def split: option.splits)
  show "let s' = setDisplayed n True (modify n (\<lambda>t. t\<lparr>visible := True\<rparr>) s)
     in commands s' = commands s
        \<and> (\<forall>m. pendingSubdivision (heap s' m) = pendingSubdivision (heap s m))
        \<and> update X this ctx n s =
            (case material (heap s n) of
               None \<Rightarrow> (Inl TypeError, s')
             | Some m \<Rightarrow>
                 if mat_visible m then
                   removeChildren X (self this) n
                     (case view_fogDistance (view ctx) of
                        None \<Rightarrow> s'
                      | Some d \<Rightarrow> setFog n d s')
                 else (Inr None, s'))
        \<and> (\<forall>criterion. update X (this\<lparr>subdivision := criterion\<rparr>) ctx n s
              = update X this ctx n s)"
    using u [of this] u [of "this\<lparr>subdivision := criterion\<rparr>" for criterion]
    by (simp add: Let_def setDisplayed_def heap_modify commands_modify)
next
  assume a: "pendingSubdivision (heap s n)"
  then have t: "subdivisionTest X this ctx n (modify n (\<lambda>t. t\<lparr>visible := True\<rparr>) s) = Inr True"
    by (simp add: subdivisionTest_def modify_def)
  from a have noop: "subdivideNode X this ctx n (modify n (\<lambda>t. t\<lparr>visible := True\<rparr>) s)
      = modify n (\<lambda>t. t\<lparr>visible := True\<rparr>) s"
    by (simp add: subdivideNode_def heap_modify)
  show "let s1 = subdivideNode X this ctx n (modify n (\<lambda>t. t\<lparr>visible := True\<rparr>) s);
            s2 = setDisplayed n (pendingSubdivision (heap s1 n)) s1
        in update X this ctx n s =
             (case material (heap s n) of
                None \<Rightarrow> (Inl TypeError, s2)
              | Some m \<Rightarrow>
                  if mat_visible m then
                    (Inr (Some (childrenOfLayer this (heap s) n)),
                     case view_fogDistance (view ctx) of None \<Rightarrow> s2 | Some d \<Rightarrow> setFog n d s2)
                  else (Inr (Some (childrenOfLayer this (heap s) n)), s2))
           \<and> displayed (heap (snd (update X this ctx n s)) n)"
    using par np vis t a
    by (simp add: noop update_def Let_def heap_modify setDisplayed_def setFog_def
        childrenOfLayer_update split: option.splits)
qed

text \<open>
  Tile \<open>1\<close> lacks its elevation texture and the criterion of \<open>globe\<close> always
  approves: nothing is requested in \<open>state0\<close>; in \<open>state1\<close>, where the tile is
  pending, the subdividing branch is taken.
\<close>

theorem update_gate_blocks_new_subdivision_witness:
  "parent (heap state0 1) = Some 0 \<and> \<not> pendingSubdivision (heap state0 0)
   \<and> \<not> culling globe (heap state0) 1 (camera ctx0)
   \<and> \<not> pendingSubdivision (heap state0 1)
   \<and> hasEnoughTexturesToSubdivide star ctx0 (heap state0 1) = Inr False
   \<and> subdivision globe ctx0 (heap state0) 1
   \<and> commands (snd (update star globe ctx0 1 state0)) = []
   \<and> \<not> pendingSubdivision (heap (snd (update star globe ctx0 1 state0)) 1)
   \<and> parent (heap state1 1) = Some 0 \<and> \<not> pendingSubdivision (heap state1 0)
   \<and> \<not> culling globe (heap state1) 1 (camera ctx0)
   \<and> pendingSubdivision (heap state1 1)
   \<and> hasEnoughTexturesToSubdivide star ctx0 (heap state1 1) = Inr False
   \<and> fst (update star globe ctx0 1 state1) = Inr (Some [])
   \<and> displayed (heap (snd (update star globe ctx0 1 state1)) 1)"
proof -
  let ?s' = "setDisplayed 1 True (modify 1 (\<lambda>t. t\<lparr>visible := True\<rparr>) state0)"
  have h1: "heap state1 = tree(1 := leaf\<lparr>pendingSubdivision := True\<rparr>)"
    by (simp add: state1_def state0_def tree_def subdivideNode_def ownsChild_def
        heap_modify leaf_def Let_def)
  have a: "parent (heap state0 1) = Some 0" "\<not> pendingSubdivision (heap state0 0)"
    "\<not> culling globe (heap state0) 1 (camera ctx0)" "\<not> pendingSubdivision (heap state0 1)"
    "subdivision globe ctx0 (heap state0) 1"
    by (simp_all add: state0_def leaf_def tree_def globe_def)
  have b: "parent (heap state1 1) = Some 0" "\<not> pendingSubdivision (heap state1 0)"
    "\<not> culling globe (heap state1) 1 (camera ctx0)" "pendingSubdivision (heap state1 1)"
    by (simp_all add: h1 leaf_def tree_def globe_def)
  have e0: "hasEnoughTexturesToSubdivide star ctx0 (heap state0 1) = Inr False"
    by (simp add: hasEnoughTexturesToSubdivide_def state0_def tree_def leaf_def ctx0_def
        layerInError_def demLayer_def orthoLayer_def star_def plainMaterial_def
        isElevationLayerLoaded_def)
  have e1: "hasEnoughTexturesToSubdivide star ctx0 (heap state1 1) = Inr False"
    by (simp add: hasEnoughTexturesToSubdivide_def h1 leaf_def ctx0_def
        layerInError_def demLayer_def orthoLayer_def star_def plainMaterial_def
        isElevationLayerLoaded_def)
  from update_gate_blocks_new_subdivision [OF a(1-3), of star] a(4) e0
  have g: "commands ?s' = commands state0"
    "\<forall>m. pendingSubdivision (heap ?s' m) = pendingSubdivision (heap state0 m)"
    "update star globe ctx0 1 state0 =
       (case material (heap state0 1) of
          None \<Rightarrow> (Inl TypeError, ?s')
        | Some m \<Rightarrow>
            if mat_visible m then
              removeChildren star (self globe) 1
                (case view_fogDistance (view ctx0) of None \<Rightarrow> ?s' | Some d \<Rightarrow> setFog 1 d ?s')
            else (Inr None, ?s'))"
    unfolding Let_def by blast+
  from g(3) have "snd (update star globe ctx0 1 state0) = ?s'"
    by (simp add: state0_def tree_def leaf_def plainMaterial_def ctx0_def view0_def star_def)
  with g(1,2) a(4) have u0: "commands (snd (update star globe ctx0 1 state0)) = []"
    "\<not> pendingSubdivision (heap (snd (update star globe ctx0 1 state0)) 1)"
    by (simp_all add: state0_def)
  from update_gate_blocks_new_subdivision [OF b(1-3), of star] b(4)
  have "update star globe ctx0 1 state1 =
       (case material (heap state1 1) of
          None \<Rightarrow> (Inl TypeError,
            setDisplayed 1 (pendingSubdivision (heap (subdivideNode star globe ctx0 1
              (modify 1 (\<lambda>t. t\<lparr>visible := True\<rparr>) state1)) 1))
              (subdivideNode star globe ctx0 1 (modify 1 (\<lambda>t. t\<lparr>visible := True\<rparr>) state1)))
        | Some m \<Rightarrow>
            if mat_visible m then
              (Inr (Some (childrenOfLayer globe (heap state1) 1)),
               case view_fogDistance (view ctx0) of
                 None \<Rightarrow> setDisplayed 1 (pendingSubdivision (heap (subdivideNode star globe ctx0 1
                     (modify 1 (\<lambda>t. t\<lparr>visible := True\<rparr>) state1)) 1))
                     (subdivideNode star globe ctx0 1 (modify 1 (\<lambda>t. t\<lparr>visible := True\<rparr>) state1))
               | Some d \<Rightarrow> setFog 1 d (setDisplayed 1 (pendingSubdivision (heap (subdivideNode star globe ctx0 1
                     (modify 1 (\<lambda>t. t\<lparr>visible := True\<rparr>) state1)) 1))
                     (subdivideNode star globe ctx0 1 (modify 1 (\<lambda>t. t\<lparr>visible := True\<rparr>) state1))))
            else (Inr (Some (childrenOfLayer globe (heap state1) 1)),
                  setDisplayed 1 (pendingSubdivision (heap (subdivideNode star globe ctx0 1
                     (modify 1 (\<lambda>t. t\<lparr>visible := True\<rparr>) state1)) 1))
                     (subdivideNode star globe ctx0 1 (modify 1 (\<lambda>t. t\<lparr>visible := True\<rparr>) state1))))"
    and u1: "displayed (heap (snd (update star globe ctx0 1 state1)) 1)"
    unfolding Let_def by blast+
  then have "fst (update star globe ctx0 1 state1) = Inr (Some [])"
    by (simp add: h1 leaf_def plainMaterial_def childrenOfLayer_def)
  with a b e0 e1 u0 u1 show ?thesis by blast
qed



section \<open>Properties of preUpdate\<close>

lemma ancestorLoop_camera:
  "Undefined \<notin> set sources \<Longrightarrow> CameraSource \<in> set sources \<Longrightarrow>
   ancestorLoop X this h sources ca = Inr (level0Nodes this)"
proof (induction sources arbitrary: ca)
  case Nil
  then show ?case by simp
next
  case (Cons src rest)
  show ?case
  proof (cases src)
    case Undefined
    with Cons.prems show ?thesis by simp
  next
    case CameraSource
    then show ?thesis by simp
  next
    case (LayerSource l)
    with Cons show ?thesis by simp
  next
    case (TileSource r)
    with Cons.prems have "ancestorLoop X this h rest ca' = Inr (level0Nodes this)" for ca'
      by (intro Cons.IH) auto
    with TileSource show ?thesis by (simp split: option.splits)
  qed
qed

text \<open>
  C6. For a non-empty set of sources without \<open>undefined\<close>, if one source is the
  camera then \<open>preUpdate\<close> returns \<open>level0Nodes\<close>, whatever tiles are among the
  sources and wherever the camera is in the iteration.
\<close>

theorem preUpdate_camera_full_root_set:
  assumes "sources \<noteq> []" and "Undefined \<notin> set sources" and "CameraSource \<in> set sources"
  shows "snd (preUpdate X this ctx sources h) = Inr (level0Nodes this)"
  using assms by (simp add: preUpdate_def Let_def ancestorLoop_camera)

theorem preUpdate_camera_full_root_set_witness:
  "[TileSource 1, CameraSource, TileSource 2] \<noteq> []
   \<and> Undefined \<notin> set [TileSource 1, CameraSource, TileSource 2]
   \<and> CameraSource \<in> set [TileSource 1, CameraSource, TileSource 2]
   \<and> snd (preUpdate star globe ctx0 [TileSource 1, CameraSource, TileSource 2] tree)
       = Inr [0, 50]"
  using preUpdate_camera_full_root_set
    [of "[TileSource 1, CameraSource, TileSource 2]" star globe ctx0 tree]
  by (simp add: globe_def)

lemma partialMeet_star: "partialMeet (findCommonAncestor star h)"
  by (auto simp: partialMeet_def star_def)

text \<open>
  C7. \<open>preUpdate\<close> is expected to return \<open>level0Nodes\<close> whenever the common
  ancestor resolved from all the sources has no material. It does not: the loop resets
  its running ancestor when it has no material and goes on with the next sources. For
  the three leaves, whose common ancestor is the root \<open>0\<close> without material, it returns
  the last leaf alone, which is no ancestor of the other two.
\<close>

theorem preUpdate_bare_ancestor_failing_input:
  "partialMeet (findCommonAncestor star bareTree)
   \<and> layer (bareTree 1) = Some (self globe) \<and> layer (bareTree 2) = Some (self globe)
   \<and> layer (bareTree 3) = Some (self globe)
   \<and> material (bareTree 1) \<noteq> None \<and> material (bareTree 2) \<noteq> None
   \<and> material (bareTree 3) \<noteq> None
   \<and> resolveAncestor (findCommonAncestor star bareTree) [1, 2, 3] = Some 0
   \<and> material (bareTree 0) = None
   \<and> level0Nodes globe = [0, 50]
   \<and> snd (preUpdate star globe ctx0 [TileSource 1, TileSource 2, TileSource 3] bareTree) = Inr [3]"
  by (simp add: partialMeet_star)
     (simp add: star_def bareTree_def tree_def leaf_def globe_def preUpdate_def Let_def)

text \<open>
  C8. With a resolver that is a commutative, associative, idempotent partial meet,
  \<open>preUpdate\<close> is expected to return the same nodes for every iteration order of a set
  of tiles of this layer. It does not: for the two leaves \<open>1\<close> and \<open>2\<close>, of which the
  first has no material, the ancestor resolved from both is the root \<open>0\<close>, which has a
  material, in either order. Starting with leaf \<open>1\<close>, the loop resets its running
  ancestor and goes on: it returns leaf \<open>2\<close> alone, which is no ancestor of leaf
  \<open>1\<close>. Starting with leaf \<open>2\<close>, it returns the root.
\<close>

theorem preUpdate_order_failing_input:
  "partialMeet (findCommonAncestor star tornTree)
   \<and> layer (tornTree 1) = Some (self globe) \<and> layer (tornTree 2) = Some (self globe)
   \<and> mset [TileSource 2, TileSource 1] = mset [TileSource 1, TileSource 2]
   \<and> resolveAncestor (findCommonAncestor star tornTree) [1, 2] = Some 0
   \<and> resolveAncestor (findCommonAncestor star tornTree) [2, 1] = Some 0
   \<and> material (tornTree 0) \<noteq> None
   \<and> material (tornTree 1) = None
   \<and> level0Nodes globe = [0, 50]
   \<and> snd (preUpdate star globe ctx0 [TileSource 1, TileSource 2] tornTree) = Inr [2]
   \<and> snd (preUpdate star globe ctx0 [TileSource 2, TileSource 1] tornTree) = Inr [0]
   \<and> snd (preUpdate star globe ctx0 [TileSource 1, TileSource 2] tornTree)
       \<noteq> snd (preUpdate star globe ctx0 [TileSource 2, TileSource 1] tornTree)"
  by (simp add: partialMeet_star)
     (simp add: star_def tornTree_def tree_def leaf_def globe_def preUpdate_def Let_def)

lemma combine_commute:
  assumes "partialMeet f"
  shows "combine f x \<circ> combine f y = combine f y \<circ> combine f x"
proof
  fix st
  from assms have comm: "\<And>a b. f a b = f b a"
    and assoc: "\<And>a b c. Option.bind (f a b) (\<lambda>x. f x c) = Option.bind (f b c) (\<lambda>y. f a y)"
    unfolding partialMeet_def by blast+
  show "(combine f x \<circ> combine f y) st = (combine f y \<circ> combine f x) st"
  proof (cases st)
    case NotSet
    have "f x y = f y x" by (rule comm)
    with NotSet show ?thesis by (simp add: combine_def)
  next
    case (Ancestor c)
    have swap: "(\<lambda>z. f x z) = (\<lambda>z. f z x)"
      by (rule ext) (rule comm)
    have "Option.bind (f y c) (\<lambda>z. f x z) = Option.bind (f y c) (\<lambda>z. f z x)"
      by (simp only: swap)
    also have "\<dots> = Option.bind (f c x) (\<lambda>w. f y w)"
      by (rule assoc)
    also have "f c x = f x c"
      by (rule comm)
    finally have meet: "Option.bind (f y c) (f x) = Option.bind (f x c) (f y)" .
    have left: "combine f x (combine f y (Ancestor c))
        = (case Option.bind (f y c) (f x) of None \<Rightarrow> NoCommonAncestor | Some w \<Rightarrow> Ancestor w)"
      by (simp add: combine_def split: option.splits)
    have right: "combine f y (combine f x (Ancestor c))
        = (case Option.bind (f x c) (f y) of None \<Rightarrow> NoCommonAncestor | Some w \<Rightarrow> Ancestor w)"
      by (simp add: combine_def split: option.splits)
    show ?thesis
      unfolding Ancestor comp_apply left right meet ..
  next
    case NoCommonAncestor
    then show ?thesis by (simp add: combine_def)
  qed
qed

lemma fold_combine_none: "fold (combine f) rs NoCommonAncestor = NoCommonAncestor"
  by (induction rs) (simp_all add: combine_def)

lemma ancestorLoop_fold:
  assumes own: "\<forall>r \<in> set rs. layer (h r) = Some (self this)"
    and sub: "set rs \<subseteq> S"
    and closed: "\<forall>a \<in> S. \<forall>b \<in> S. \<forall>c. findCommonAncestor X h a b = Some c \<longrightarrow> c \<in> S"
    and mat: "\<forall>a \<in> S. material (h a) \<noteq> None"
    and ca: "\<forall>c. ca = Some c \<longrightarrow> c \<in> S"
  shows "ancestorLoop X this h (map TileSource rs) ca
       = Inr (nodesToUpdate this
           (fold (combine (findCommonAncestor X h)) rs
              (case ca of None \<Rightarrow> NotSet | Some c \<Rightarrow> Ancestor c)))"
  using own sub ca
proof (induction rs arbitrary: ca)
  case Nil
  then show ?case by (simp add: nodesToUpdate_def split: option.splits)
next
  case (Cons r rs)
  from Cons.prems have r: "layer (h r) = Some (self this)" "r \<in> S"
    and rest: "\<forall>r \<in> set rs. layer (h r) = Some (self this)" "set rs \<subseteq> S"
    by auto
  show ?case
  proof (cases "case ca of None \<Rightarrow> Some r | Some c \<Rightarrow> findCommonAncestor X h r c")
    case None
    then obtain c where c: "ca = Some c" "findCommonAncestor X h r c = None"
      by (auto split: option.splits)
    then have "combine (findCommonAncestor X h) r (Ancestor c) = NoCommonAncestor"
      by (simp add: combine_def)
    with c r show ?thesis
      by (simp add: fold_combine_none nodesToUpdate_def)
  next
    case (Some c')
    have "c' \<in> S"
    proof (cases ca)
      case None
      with Some r show ?thesis by simp
    next
      case (Some c)
      with \<open>(case ca of None \<Rightarrow> Some r | Some c \<Rightarrow> findCommonAncestor X h r c) = Some c'\<close>
      have "findCommonAncestor X h r c = Some c'" by simp
      moreover from Some Cons.prems have "c \<in> S" by simp
      ultimately show ?thesis using closed r by blast
    qed
    with mat have m: "material (h c') \<noteq> None" by blast
    have "ancestorLoop X this h (map TileSource (r # rs)) ca
        = ancestorLoop X this h (map TileSource rs) (Some c')"
      using r Some m by auto
    also have "\<dots> = Inr (nodesToUpdate this
        (fold (combine (findCommonAncestor X h)) rs (Ancestor c')))"
      using Cons.IH [OF rest, of "Some c'"] \<open>c' \<in> S\<close> by simp
    also have "Ancestor c' = combine (findCommonAncestor X h) r
        (case ca of None \<Rightarrow> NotSet | Some c \<Rightarrow> Ancestor c)"
      using Some by (cases ca) (simp_all add: combine_def)
    finally show ?thesis by simp
  qed
qed

text \<open>
  Where the loop never resets its running ancestor, the order of the sources does not
  matter: let the resolver be a commutative, associative, idempotent partial meet, and
  let the sources be tiles of this layer inside a set that is closed under the resolver
  and whose tiles all have a material. Then \<open>preUpdate\<close> returns the same nodes for
  every order of the sources. The order matters only through the reset.
\<close>

lemma preUpdate_order_independent_without_reset:
  assumes meet: "partialMeet (findCommonAncestor X h)"
    and own: "\<forall>r \<in> set rs. layer (h r) = Some (self this)"
    and sub: "set rs \<subseteq> S"
    and closed: "\<forall>a \<in> S. \<forall>b \<in> S. \<forall>c. findCommonAncestor X h a b = Some c \<longrightarrow> c \<in> S"
    and mat: "\<forall>a \<in> S. material (h a) \<noteq> None"
    and perm: "mset rs' = mset rs"
  shows "snd (preUpdate X this ctx (map TileSource rs') h)
       = snd (preUpdate X this ctx (map TileSource rs) h)"
proof -
  let ?g = "combine (findCommonAncestor X h)"
  have none: "\<forall>c. (None :: ref option) = Some c \<longrightarrow> c \<in> S"
    by simp
  from perm have same: "set rs' = set rs"
    by (rule mset_eq_setD)
  from own sub same have own': "\<forall>r \<in> set rs'. layer (h r) = Some (self this)"
    and sub': "set rs' \<subseteq> S"
    by blast+
  have "ancestorLoop X this h (map TileSource rs') None
      = Inr (nodesToUpdate this (fold ?g rs' NotSet))"
    using ancestorLoop_fold [OF own' sub' closed mat none] by simp
  also have "fold ?g rs' = fold ?g rs"
  proof (rule fold_multiset_equiv)
    show "?g x \<circ> ?g y = ?g y \<circ> ?g x" for x y
      by (rule combine_commute [OF meet])
    show "mset rs' = mset rs"
      by (rule perm)
  qed
  also have "Inr (nodesToUpdate this (fold ?g rs NotSet))
      = ancestorLoop X this h (map TileSource rs) None"
    using ancestorLoop_fold [OF own sub closed mat none] by simp
  finally have loops: "ancestorLoop X this h (map TileSource rs') None
      = ancestorLoop X this h (map TileSource rs) None" .
  have empty: "rs' = [] \<longleftrightarrow> rs = []"
    using same by (cases rs; cases rs') auto
  have tiles: "Undefined \<notin> set (map TileSource xs)" for xs
    by (induction xs) simp_all
  show ?thesis
    unfolding preUpdate_def Let_def using loops empty tiles [of rs] tiles [of rs']
    by (cases "rs = []") simp_all
qed

text \<open>The three leaves of the example tree, in two orders: the root both times.\<close>

lemma preUpdate_order_independent_without_reset_example:
  "partialMeet (findCommonAncestor star tree)
   \<and> layer (tree 1) = Some (self globe) \<and> layer (tree 2) = Some (self globe)
   \<and> layer (tree 3) = Some (self globe)
   \<and> findCommonAncestor star tree 1 2 = Some 0 \<and> findCommonAncestor star tree 3 0 = Some 0
   \<and> material (tree 0) \<noteq> None \<and> material (tree 1) \<noteq> None
   \<and> material (tree 2) \<noteq> None \<and> material (tree 3) \<noteq> None
   \<and> mset [3, 1, 2] = mset [1, 2, 3 :: nat]
   \<and> snd (preUpdate star globe ctx0 [TileSource 3, TileSource 1, TileSource 2] tree) = Inr [0]
   \<and> snd (preUpdate star globe ctx0 [TileSource 1, TileSource 2, TileSource 3] tree) = Inr [0]"
proof -
  have own: "\<forall>r \<in> set [1, 2, 3]. layer (tree r) = Some (self globe)"
    and sub: "set [1, 2, 3] \<subseteq> {0, 1, 2, 3 :: nat}"
    and closed: "\<forall>a \<in> {0, 1, 2, 3}. \<forall>b \<in> {0, 1, 2, 3}. \<forall>c.
         findCommonAncestor star tree a b = Some c \<longrightarrow> c \<in> {0, 1, 2, 3}"
    and mat: "\<forall>a \<in> {0, 1, 2, 3}. material (tree a) \<noteq> None"
    and perm: "mset [3, 1, 2] = mset [1, 2, 3 :: nat]"
    by (simp_all add: star_def tree_def leaf_def globe_def)
  have f: "findCommonAncestor star tree 1 2 = Some 0" "findCommonAncestor star tree 3 0 = Some 0"
    by (simp_all add: star_def)
  have r: "snd (preUpdate star globe ctx0 [TileSource 1, TileSource 2, TileSource 3] tree) = Inr [0]"
    by (simp add: star_def tree_def leaf_def globe_def preUpdate_def Let_def)
  from preUpdate_order_independent_without_reset [OF partialMeet_star own sub closed mat perm, of ctx0]
  have "snd (preUpdate star globe ctx0 [TileSource 3, TileSource 1, TileSource 2] tree)
      = snd (preUpdate star globe ctx0 [TileSource 1, TileSource 2, TileSource 3] tree)"
    by simp
  with r partialMeet_star own mat perm f show ?thesis by simp
qed

section \<open>Properties of detach\<close>

text \<open>
  C10. \<open>detach\<close> removes every attached layer whose identifier is that of the
  argument (whatever the object), keeps the others with their multiplicity and in
  their order, changes no other field, and returns true exactly when the argument's
  identifier was attached.
\<close>

theorem detach_removes_every_layer_with_id:
  assumes "detach this l = (b, this')"
  shows "(\<forall>a \<in> set (attachedLayers this'). layer_id a \<noteq> layer_id l)
       \<and> subseq (attachedLayers this') (attachedLayers this)
       \<and> (\<forall>a \<in> set (attachedLayers this). layer_id a \<noteq> layer_id l \<longrightarrow>
             count_list (attachedLayers this') a = count_list (attachedLayers this) a)
       \<and> (b \<longleftrightarrow> (\<exists>a \<in> set (attachedLayers this). layer_id a = layer_id l))
       \<and> this' = this\<lparr>attachedLayers := attachedLayers this'\<rparr>"
proof -
  let ?P = "\<lambda>attached. layer_id attached \<noteq> layer_id l"
  let ?old = "attachedLayers this"
  from assms have new: "attachedLayers this' = filter ?P ?old"
    and b: "b = (length (filter ?P ?old) < length ?old)"
    and rest: "this' = this\<lparr>attachedLayers := filter ?P ?old\<rparr>"
    by (auto simp: detach_def Let_def)
  have cnt: "count_list (filter ?P xs) a = count_list xs a" if "?P a" for xs :: "layer list" and a
    using that by (induction xs) auto
  have len: "(length (filter ?P xs) < length xs) = (\<exists>a \<in> set xs. \<not> ?P a)" for xs :: "layer list"
  proof (induction xs)
    case Nil
    show ?case by simp
  next
    case (Cons x xs)
    have "length (filter ?P xs) \<le> length xs" by simp
    with Cons show ?case by auto
  qed
  show ?thesis
    using new b rest cnt len by auto
qed

text \<open>
  Two distinct layers named \<open>dem\<close> are attached to \<open>globe\<close>; detaching one removes
  both.
\<close>

theorem detach_removes_every_layer_with_id_witness:
  "detach globe demLayer = (True, globe\<lparr>attachedLayers := [orthoLayer]\<rparr>)
   \<and> attachedLayers globe = [demLayer, orthoLayer, demCopy]
   \<and> demCopy \<noteq> demLayer
   \<and> subseq [orthoLayer] (attachedLayers globe)
   \<and> count_list [orthoLayer] orthoLayer = count_list (attachedLayers globe) orthoLayer"
  using detach_removes_every_layer_with_id
    [of globe demLayer True "globe\<lparr>attachedLayers := [orthoLayer]\<rparr>"]
  by (simp add: detach_def globe_def orthoLayer_def demLayer_def demCopy_def)

end
